theory Spec2Isabelle
  imports Main "HOL-Library.Sublist"
begin

section \<open>The run-server and deploy-server tools of the mcp-use server\<close>

text \<open>
  The two tools registered at the end of \<^verbatim>\<open>src/index.ts\<close> are asynchronous handlers
  that destructure their argument object with defaults, pick the package manager and
  return \<^verbatim>\<open>text(...)\<close> of a template literal.

  Strings are \<^typ>\<open>string\<close>, holding the UTF-8 encoding of the JavaScript string: the three
  pictographs of the run text and the check mark of the cloud text are the byte sequences
  the source file stores for them. Every string searched for below is ASCII, and an ASCII
  byte never occurs inside a multi-byte UTF-8 sequence, so containment of such a string
  is the same on the bytes as on the UTF-16 code units JavaScript compares.

  A template literal that spans several source lines is the list of its lines joined by
  the line feed; an omitted (\<^verbatim>\<open>undefined\<close>) property of the argument object is \<^const>\<open>None\<close>.
\<close>

subsection \<open>Strings and numbers\<close>

definition nl :: char where
  "nl = CHR 0x0A"

fun join_lines :: "string list \<Rightarrow> string" where
  "join_lines [] = []"
| "join_lines [l] = l"
| "join_lines (l # ls) = l @ nl # join_lines ls"

text \<open>
  \<^verbatim>\<open>${port}\<close> applies the language's number-to-string conversion. Every integer of
  magnitude at most \<open>2\<^sup>5\<^sup>3\<close> is a number of the language, and the conversion gives its
  decimal numeral, with a leading minus sign for a negative one: this is
  \<open>number_to_string\<close>, the conversion of the integer model of a port. Beyond that bound a
  number prints the shortest digits that read back as it, padded with zeros, and from
  \<open>10\<^sup>2\<^sup>1\<close> on in exponent form; \<open>number_to_string\<close> does not model that, and a statement
  about the numeral itself is made within the bound.
\<close>

definition digit_char :: "nat \<Rightarrow> char" where
  "digit_char d = ''0123456789'' ! d"

fun digits_of :: "nat \<Rightarrow> string" where
  "digits_of n = (if n < 10 then [digit_char n] else digits_of (n div 10) @ [digit_char (n mod 10)])"

declare digits_of.simps [simp del]

definition number_to_string :: "int \<Rightarrow> string" where
  "number_to_string i = (if i < 0 then CHR ''-'' # digits_of (nat (- i)) else digits_of (nat i))"

text \<open>
  Reading a numeral back: \<open>decimal_value\<close> is the number a string of digits denotes, and
  \<open>decimal_numeral ds n\<close> says that \<open>ds\<close> is the decimal numeral of \<open>n\<close>, a non-empty string of
  digits with no leading zero (but for \<open>0\<close> itself) that denotes \<open>n\<close>.
\<close>

definition digit_value :: "char \<Rightarrow> nat" where
  "digit_value c = of_char c - 48"

definition decimal_value :: "string \<Rightarrow> nat" where
  "decimal_value ds = foldl (\<lambda>a c. 10 * a + digit_value c) 0 ds"

definition decimal_numeral :: "string \<Rightarrow> nat \<Rightarrow> bool" where
  "decimal_numeral ds n \<longleftrightarrow>
     ds \<noteq> [] \<and> set ds \<subseteq> set ''0123456789'' \<and> (ds = ''0'' \<or> hd ds \<noteq> CHR ''0'')
     \<and> decimal_value ds = n"

subsection \<open>Results of a handler\<close>

text \<open>
  An \<^verbatim>\<open>async\<close> handler settles either with a rejection (\<^const>\<open>Inl\<close>) or with the tool
  result it returns (\<^const>\<open>Inr\<close>). \<^verbatim>\<open>text(s)\<close> of the framework wraps the string \<open>s\<close> as
  the single text content of a tool result.
\<close>

datatype error = ConfigurationError | OtherError string

datatype tool_result = Text string

type_synonym 'a promise = "error + 'a"

subsection \<open>Tool 1: run-server\<close>

text \<open>
  The handler body, for a number type \<open>'n\<close> with its string conversion \<open>to_string\<close> and
  the value \<open>port3000\<close> of the literal \<^verbatim>\<open>3000\<close>.
\<close>

definition run_server_with ::
  "('n \<Rightarrow> string) \<Rightarrow> 'n \<Rightarrow> bool option \<Rightarrow> 'n option \<Rightarrow> string" where
  "run_server_with to_string port3000 useYarn_arg port_arg =
    (let useYarn = (case useYarn_arg of None \<Rightarrow> True | Some b \<Rightarrow> b);
         port = (case port_arg of None \<Rightarrow> port3000 | Some p \<Rightarrow> p);
         packageManager = (if useYarn then ''yarn'' else ''npm'')
     in join_lines [
     ''To run your MCP server locally:'',
     '''',
     ''**Development mode (with hot reload):**'',
     ''```bash'',
     packageManager @ '' run dev'',
     ''```'',
     '''',
     ''**Production mode:**'',
     ''```bash'',
     ''# First build'',
     packageManager @ '' run build'',
     '''',
     ''# Then start'',
     packageManager @ '' start'',
     ''```'',
     '''',
     ''**With custom port:**'',
     ''```bash'',
     ''PORT='' @ to_string port @ '' '' @ packageManager @ '' start'',
     ''```'',
     '''',
     ''**Test with tunneling (before deployment):**'',
     ''```bash'',
     ''# Option 1: Auto-tunnel'',
     ''mcp-use start --port '' @ to_string port @ '' --tunnel'',
     '''',
     ''# Option 2: Separate tunnel'',
     packageManager @ '' start  # Terminal 1'',
     ''npx @mcp-use/tunnel '' @ to_string port @ ''  # Terminal 2'',
     ''```'',
     '''',
     ''Your server will be available at:'',
     ''- '' @ [CHR 0xF0, CHR 0x9F, CHR 0x8C, CHR 0x90] @ '' MCP endpoint: http://localhost:'' @ to_string port @ ''/mcp'',
     ''- '' @ [CHR 0xF0, CHR 0x9F, CHR 0x94, CHR 0x8D] @ '' Inspector UI: http://localhost:'' @ to_string port @ ''/inspector'',
     ''- '' @ [CHR 0xF0, CHR 0x9F, CHR 0x94, CHR 0x92] @ '' Tunnel URL: https://[subdomain].local.mcp-use.run/mcp (when using tunnel)'',
     '''',
     ''**Tunnel details:**'',
     ''- Expires after 24 hours'',
     ''- Closes after 1 hour of inactivity'',
     ''- Use to test with ChatGPT before deploying'',
     '''',
     ''Learn more: https://mcp-use.com/docs/tunneling''
     ])"

text \<open>The handler on integer ports: the text it composes, and the settled result.\<close>

definition run_server_text :: "bool option \<Rightarrow> int option \<Rightarrow> string" where
  "run_server_text useYarn_arg port_arg = run_server_with number_to_string 3000 useYarn_arg port_arg"

definition run_server :: "bool option \<Rightarrow> int option \<Rightarrow> tool_result promise" where
  "run_server useYarn_arg port_arg = Inr (Text (run_server_text useYarn_arg port_arg))"

subsection \<open>Tool 2: deploy-server\<close>

text \<open>The three template literals appended to the header, one per branch.\<close>

definition mcp_use_cloud_instructions :: "string \<Rightarrow> string" where
  "mcp_use_cloud_instructions packageManager = join_lines [
     ''## Deploy to mcp-use Cloud (Recommended)'',
     '''',
     ''**Step 1: Login (if not already logged in)**'',
     ''```bash'',
     ''npx mcp-use login'',
     ''```'',
     '''',
     ''**Step 2: Deploy**'',
     ''```bash'',
     packageManager @ '' run deploy'',
     ''```'',
     '''',
     ''**If deployment fails with authentication error:**'',
     ''```bash'',
     ''# Run login command'',
     ''npx mcp-use login'',
     '''',
     ''# Then try deploy again'',
     packageManager @ '' run deploy'',
     ''```'',
     '''',
     ''**After successful deployment:**'',
     ''- '' @ [CHR 0xE2, CHR 0x9C, CHR 0x85] @ '' You'll receive a public URL for your MCP server'',
     ''- '' @ [CHR 0xE2, CHR 0x9C, CHR 0x85] @ '' The server is automatically scaled and monitored'',
     ''- '' @ [CHR 0xE2, CHR 0x9C, CHR 0x85] @ '' HTTPS is enabled by default'',
     ''- '' @ [CHR 0xE2, CHR 0x9C, CHR 0x85] @ '' Zero-downtime deployments'',
     '''',
     ''**Deployment URL format:**'',
     ''`https://your-server-name.mcp-use.com/mcp`'',
     '''',
     ''Use this URL to connect from ChatGPT, Claude, or other MCP clients.''
     ]"

definition supabase_instructions :: string where
  "supabase_instructions = join_lines [
     ''## Deploy to Supabase'',
     '''',
     ''**Step 1: Install Supabase CLI**'',
     ''```bash'',
     ''npm install -g supabase'',
     ''```'',
     '''',
     ''**Step 2: Initialize Supabase**'',
     ''```bash'',
     ''supabase init'',
     ''```'',
     '''',
     ''**Step 3: Deploy as Edge Function**'',
     ''```bash'',
     ''supabase functions deploy mcp-server'',
     ''```'',
     '''',
     ''See full guide: https://docs.mcp-use.com/typescript/server/deployment/supabase''
     ]"

definition other_instructions :: string where
  "other_instructions = join_lines [
     ''## Deploy to Custom Platform'',
     '''',
     ''For other deployment platforms:'',
     ''- **Vercel**: Use `vercel deploy`'',
     ''- **Netlify**: Use `netlify deploy`'',
     ''- **Railway**: Use `railway up`'',
     ''- **Docker**: Build and deploy container'',
     '''',
     ''See deployment docs: https://docs.mcp-use.com/typescript/server/deployment''
     ]"

definition deploy_header :: string where
  "deploy_header = ''# Deploy Your MCP Server'' @ [nl, nl]"

text \<open>
  The platform is the string the handler compares with \<^verbatim>\<open>===\<close>; the schema's enumeration
  is \<open>platforms\<close>, and a string outside it reaches the final \<^verbatim>\<open>else\<close>.
\<close>

definition platforms :: "string list" where
  "platforms = [''mcp-use-cloud'', ''supabase'', ''other'']"

definition deploy_server_text :: "bool option \<Rightarrow> string option \<Rightarrow> string" where
  "deploy_server_text useYarn_arg platform_arg =
    (let useYarn = (case useYarn_arg of None \<Rightarrow> True | Some b \<Rightarrow> b);
         platform = (case platform_arg of None \<Rightarrow> ''mcp-use-cloud'' | Some p \<Rightarrow> p);
         packageManager = (if useYarn then ''yarn'' else ''npm'');
         instructions = deploy_header
     in if platform = ''mcp-use-cloud'' then instructions @ mcp_use_cloud_instructions packageManager
        else if platform = ''supabase'' then instructions @ supabase_instructions
        else instructions @ other_instructions)"

definition deploy_server :: "bool option \<Rightarrow> string option \<Rightarrow> tool_result promise" where
  "deploy_server useYarn_arg platform_arg = Inr (Text (deploy_server_text useYarn_arg platform_arg))"

subsection \<open>The handlers in the runtime of the module\<close>

text \<open>
  A handler is a closure of the module: when the framework calls it, it could read the
  clock (\<^verbatim>\<open>Date.now()\<close>), draw from the random source (\<^verbatim>\<open>Math.random()\<close>) and see what the
  module has kept of the calls served before. \<open>runtime\<close> is that environment, a \<open>call\<close> is a
  request for one of the two tools with its arguments, and \<open>call_tool rt c\<close> is the result
  of the registered handler run in the runtime \<open>rt\<close>. Neither handler body mentions the
  clock, the random source or any variable of the module but its own parameters.

  \<open>session\<close> serves calls one after the other: each arrives at its own time, and the
  runtime of a call holds that time and the calls served before it.
\<close>

datatype call =
    RunServer "bool option" "int option"
  | DeployServer "bool option" "string option"

record runtime =
  clock :: nat
  random_source :: "nat list"
  served :: "call list"



section \<open>Containment in joined lines\<close>

lemma prefix_disjoint:
  assumes "set d \<inter> set n = {}" "d \<noteq> []" "prefix n (d @ b)"
  shows "n = []"
proof (cases n)
  case Nil then show ?thesis .
next
  case (Cons y ys)
  obtain x xs where d: "d = x # xs" using assms(2) by (cases d) auto
  from assms(3) have "x = y" unfolding d Cons by simp
  then have "x \<in> set d \<inter> set n" unfolding d Cons by simp
  with assms(1) show ?thesis by simp
qed

lemma suffix_disjoint:
  assumes "set d \<inter> set n = {}" "d \<noteq> []" "suffix n (a @ d)"
  shows "n = []"
proof (cases n rule: rev_cases)
  case Nil then show ?thesis .
next
  case (snoc ys y)
  obtain xs x where d: "d = xs @ [x]" using assms(2) by (cases d rule: rev_cases) auto
  from assms(3) obtain zs where "a @ xs @ [x] = zs @ ys @ [y]"
    unfolding d snoc suffix_def by blast
  then have "(a @ xs) @ [x] = (zs @ ys) @ [y]" by simp
  then have "x = y" by (rule append1_eq_conv[THEN iffD1, THEN conjunct2])
  then have "x \<in> set d \<inter> set n" unfolding d snoc by simp
  with assms(1) show ?thesis by simp
qed

lemma sublist_disjoint:
  assumes "set d \<inter> set n = {}" "sublist n d"
  shows "n = []"
proof (cases n)
  case Nil then show ?thesis .
next
  case (Cons y ys)
  have "set n \<subseteq> set d" using assms(2) by (rule set_mono_sublist)
  then have "y \<in> set d \<inter> set n" unfolding Cons by simp
  with assms(1) show ?thesis by simp
qed

lemma sublist_around:
  assumes dis: "set d \<inter> set n = {}" and ne: "d \<noteq> []"
  shows "sublist n (a @ d @ b) \<longleftrightarrow> sublist n a \<or> sublist n b"
proof
  assume "sublist n (a @ d @ b)"
  then have "sublist n a \<or> sublist n (d @ b)
      \<or> (\<exists>n1 n2. n = n1 @ n2 \<and> suffix n1 a \<and> prefix n2 (d @ b))"
    by (simp only: sublist_append[of n a])
  moreover have "sublist n b" if "sublist n (d @ b)"
  proof -
    from that have "sublist n d \<or> sublist n b
        \<or> (\<exists>m1 m2. n = m1 @ m2 \<and> suffix m1 d \<and> prefix m2 b)"
      by (simp only: sublist_append[of n d])
    moreover have "sublist n b" if "sublist n d"
    proof -
      from dis that have "n = []" by (rule sublist_disjoint)
      then show ?thesis by simp
    qed
    moreover have "sublist n b" if "n = m1 @ m2" "suffix m1 d" "prefix m2 b" for m1 m2
    proof -
      have "set d \<inter> set m1 = {}" using dis unfolding that(1) by auto
      moreover have "suffix m1 ([] @ d)" using that(2) by simp
      ultimately have "m1 = []" using ne suffix_disjoint[of d m1 "[]"] by simp
      then have "prefix n b" using that(1,3) by simp
      then show ?thesis by (rule prefix_imp_sublist)
    qed
    ultimately show ?thesis by auto
  qed
  moreover have "sublist n a" if "n = n1 @ n2" "suffix n1 a" "prefix n2 (d @ b)" for n1 n2
  proof -
    have "set d \<inter> set n2 = {}" using dis unfolding that(1) by auto
    then have "n2 = []" using ne that(3) by (rule prefix_disjoint)
    then have "suffix n a" using that(1,2) by simp
    then show ?thesis by (rule suffix_imp_sublist)
  qed
  ultimately show "sublist n a \<or> sublist n b" by auto
next
  assume "sublist n a \<or> sublist n b"
  then show "sublist n (a @ d @ b)"
  proof
    assume "sublist n a"
    moreover have "sublist a (a @ d @ b)" by simp
    ultimately show ?thesis by (rule sublist_order.order_trans)
  next
    assume "sublist n b"
    moreover have "sublist b (a @ d @ b)"
      unfolding sublist_def by (rule exI[of _ "a @ d"], rule exI[of _ "[]"]) simp
    ultimately show ?thesis by (rule sublist_order.order_trans)
  qed
qed


lemma sublist_join_lines:
  assumes "nl \<notin> set n" "ls \<noteq> []"
  shows "sublist n (join_lines ls) \<longleftrightarrow> (\<exists>l\<in>set ls. sublist n l)"
  using assms(2)
proof (induction ls rule: join_lines.induct)
  case 1 then show ?case by simp
next
  case (2 l) show ?case by simp
next
  case (3 l l' ls)
  have step: "sublist n (l @ nl # r) \<longleftrightarrow> sublist n l \<or> sublist n r" for r
  proof -
    have "set [nl] \<inter> set n = {}" using assms(1) by simp
    then have "sublist n (l @ [nl] @ r) \<longleftrightarrow> sublist n l \<or> sublist n r"
      by (rule sublist_around) simp
    then show ?thesis by simp
  qed
  from 3 show ?case by (simp add: step)
qed

lemma join_lines_append:
  assumes "xs \<noteq> []" "ys \<noteq> []"
  shows "join_lines (xs @ ys) = join_lines xs @ nl # join_lines ys"
  using assms(1)
proof (induction xs rule: join_lines.induct)
  case 1 then show ?case by simp
next
  case (2 l)
  obtain y ys' where "ys = y # ys'" using assms(2) by (cases ys) auto
  then show ?case by simp
next
  case (3 l l' ls) then show ?case by simp
qed

lemma sublist_join_lines_block:
  assumes "ys \<noteq> []"
  shows "sublist (join_lines ys) (join_lines (xs @ ys @ zs))"
proof -
  have right: "sublist (join_lines ys) (join_lines (ys @ zs))"
  proof (cases "zs = []")
    case True then show ?thesis by simp
  next
    case False
    with assms have "join_lines (ys @ zs) = join_lines ys @ nl # join_lines zs"
      by (rule join_lines_append)
    then show ?thesis by simp
  qed
  show ?thesis
  proof (cases "xs = []")
    case True with right show ?thesis by simp
  next
    case False
    have "ys @ zs \<noteq> []" using assms by simp
    with False have "join_lines (xs @ ys @ zs) = join_lines xs @ nl # join_lines (ys @ zs)"
      by (rule join_lines_append)
    then have "join_lines (xs @ ys @ zs) = (join_lines xs @ [nl]) @ join_lines (ys @ zs)"
      by simp
    moreover have "sublist (join_lines (ys @ zs)) ((join_lines xs @ [nl]) @ join_lines (ys @ zs))"
      by (rule sublist_append_leftI)
    ultimately have "sublist (join_lines (ys @ zs)) (join_lines (xs @ ys @ zs))" by simp
    with right show ?thesis by (rule sublist_order.order_trans)
  qed
qed

lemma sublist_line:
  assumes "l \<in> set ls"
  shows "sublist l (join_lines ls)"
proof -
  from assms obtain xs zs where "ls = xs @ [l] @ zs"
    by (auto simp: in_set_conv_decomp)
  moreover have "sublist (join_lines [l]) (join_lines (xs @ [l] @ zs))"
    by (rule sublist_join_lines_block) simp
  ultimately show ?thesis by simp
qed

lemma sublist_join_lines_at:
  assumes "take (length b) (drop i ls) = b" "b \<noteq> []"
  shows "sublist (join_lines b) (join_lines ls)"
proof -
  have "ls = take i ls @ take (length b) (drop i ls) @ drop (length b) (drop i ls)"
    by (simp only: append_take_drop_id)
  then have "ls = take i ls @ b @ drop (length b) (drop i ls)"
    by (simp only: assms(1))
  moreover have "sublist (join_lines b) (join_lines (take i ls @ b @ drop (length b) (drop i ls)))"
    using assms(2) by (rule sublist_join_lines_block)
  ultimately show ?thesis by simp
qed

section \<open>The characters of a rendered integer\<close>

lemma digit_char_in: "d < 10 \<Longrightarrow> digit_char d \<in> set ''0123456789''"
  unfolding digit_char_def by (rule nth_mem) simp

lemma digits_of_chars: "set (digits_of n) \<subseteq> set ''0123456789''"
proof (induction n rule: digits_of.induct)
  case (1 n)
  show ?case
  proof (cases "n < 10")
    case True
    then show ?thesis using digit_char_in[of n] by (subst digits_of.simps) simp
  next
    case False
    have "n mod 10 < 10" by simp
    then have "digit_char (n mod 10) \<in> set ''0123456789''" by (rule digit_char_in)
    with False 1 show ?thesis by (subst digits_of.simps) simp
  qed
qed

lemma digits_of_nonempty: "digits_of n \<noteq> []"
  by (subst digits_of.simps) simp

lemma number_to_string_nonempty: "number_to_string i \<noteq> []"
  unfolding number_to_string_def by (simp add: digits_of_nonempty)

lemma number_to_string_chars: "set (number_to_string i) \<subseteq> set ''-0123456789''"
proof -
  have sub: "set ''0123456789'' \<subseteq> set ''-0123456789''" by simp
  have dig: "set (digits_of k) \<subseteq> set ''-0123456789''" for k
    using digits_of_chars sub by (rule subset_trans)
  show ?thesis
  proof (cases "i < 0")
    case True
    have "CHR ''-'' \<in> set ''-0123456789''" by simp
    with dig[of "nat (- i)"] have "set (CHR ''-'' # digits_of (nat (- i))) \<subseteq> set ''-0123456789''"
      by (simp only: set_simps insert_subset)
    with True show ?thesis by (simp only: number_to_string_def if_True)
  next
    case False
    with dig[of "nat i"] show ?thesis by (simp only: number_to_string_def if_False)
  qed
qed

lemma number_to_string_8080: "number_to_string 8080 = ''8080''"
  by (simp add: number_to_string_def digits_of.simps digit_char_def)

lemma sublist_number_skip:
  assumes "set ''-0123456789'' \<inter> set n = {}" "n \<noteq> []"
  shows "sublist n (number_to_string p @ b) \<longleftrightarrow> sublist n b"
proof -
  have "set (number_to_string p) \<inter> set n \<subseteq> set ''-0123456789'' \<inter> set n"
    using number_to_string_chars[of p] by (rule Int_mono) simp
  with assms(1) have "set (number_to_string p) \<inter> set n = {}" by simp
  then have "sublist n ([] @ number_to_string p @ b) \<longleftrightarrow> sublist n [] \<or> sublist n b"
    using number_to_string_nonempty by (rule sublist_around)
  with assms(2) show ?thesis by simp
qed

section \<open>Properties of run-server\<close>

lemma run_server_no_yarn:
  "\<not> sublist ''yarn'' (run_server_text (Some False) (Some port))"
  unfolding run_server_text_def run_server_with_def
  by (simp add: sublist_join_lines nl_def sublist_code sublist_number_skip)

lemma run_server_no_npm:
  "\<not> sublist ''npm'' (run_server_text (Some True) (Some port))"
  unfolding run_server_text_def run_server_with_def
  by (simp add: sublist_join_lines nl_def sublist_code sublist_number_skip)

lemma run_server_has_run_dev:
  "sublist ((if useYarn then ''yarn'' else ''npm'') @ '' run dev'')
     (run_server_with to_string port3000 (Some useYarn) (Some port))"
  unfolding run_server_with_def Let_def option.case
  by (rule sublist_line) simp

lemma run_server_custom_port_block:
  "sublist (join_lines [''**With custom port:**'', ''```bash'',
      ''PORT='' @ to_string port @ '' '' @ (if useYarn then ''yarn'' else ''npm'') @ '' start'',
      ''```''])
    (run_server_with to_string port3000 (Some useYarn) (Some port))"
  unfolding run_server_with_def Let_def option.case
  by (rule sublist_join_lines_at[where i=16]) simp_all

lemma run_server_custom_port_line:
  "sublist (''PORT='' @ to_string port @ '' '' @ (if useYarn then ''yarn'' else ''npm'') @ '' start'')
    (run_server_with to_string port3000 (Some useYarn) (Some port))"
  unfolding run_server_with_def Let_def option.case
  by (rule sublist_line) simp

lemma run_server_has_start:
  "sublist ((if useYarn then ''yarn'' else ''npm'') @ '' start'')
     (run_server_with to_string port3000 (Some useYarn) (Some port))"
  unfolding run_server_with_def Let_def option.case
  by (rule sublist_line) simp

lemma run_server_auto_tunnel_line:
  "sublist (''mcp-use start --port '' @ to_string port @ '' --tunnel'')
    (run_server_with to_string port3000 (Some useYarn) (Some port))"
  unfolding run_server_with_def Let_def option.case
  by (rule sublist_line) simp

lemma run_server_tunnel_line:
  "sublist (''npx @mcp-use/tunnel '' @ to_string port @ ''  # Terminal 2'')
    (run_server_with to_string port3000 (Some useYarn) (Some port))"
  unfolding run_server_with_def Let_def option.case
  by (rule sublist_line) simp

lemma number_to_string_0: "number_to_string 0 = ''0''"
  by (simp add: number_to_string_def digits_of.simps digit_char_def)

lemma number_to_string_minus_1: "number_to_string (- 1) = ''-1''"
  by (simp add: number_to_string_def digits_of.simps digit_char_def)

text \<open>
  C7. With \<open>useYarn = false\<close> and \<open>port = 8080\<close> the text of run-server contains
  \<^verbatim>\<open>npm run dev\<close>, \<^verbatim>\<open>npm start\<close> and \<^verbatim>\<open>PORT=8080 npm start\<close>, and \<^verbatim>\<open>yarn\<close> occurs
  nowhere in it.
\<close>

theorem run_server_npm_8080:
  "sublist ''npm run dev'' (run_server_text (Some False) (Some 8080))
   \<and> sublist ''npm start'' (run_server_text (Some False) (Some 8080))
   \<and> sublist ''PORT=8080 npm start'' (run_server_text (Some False) (Some 8080))
   \<and> \<not> sublist ''yarn'' (run_server_text (Some False) (Some 8080))"
proof -
  have 1: "sublist ''npm run dev'' (run_server_text (Some False) (Some 8080))"
    using run_server_has_run_dev[of False number_to_string 3000 8080]
    unfolding run_server_text_def by simp
  have 2: "sublist ''npm start'' (run_server_text (Some False) (Some 8080))"
    using run_server_has_start[of False number_to_string 3000 8080]
    unfolding run_server_text_def by simp
  have 3: "sublist ''PORT=8080 npm start'' (run_server_text (Some False) (Some 8080))"
    using run_server_custom_port_line[of number_to_string 8080 False 3000]
    unfolding run_server_text_def number_to_string_8080 by simp
  from 1 2 3 run_server_no_yarn[of 8080] show ?thesis by simp
qed

text \<open>
  C9. The handler of run-server never rejects a port. For a number of any kind, rendered
  by the conversion \<open>to_string\<close> of the language, the command lines \<^verbatim>\<open>PORT=<port> <pm> start\<close>,
  \<^verbatim>\<open>mcp-use start --port <port> --tunnel\<close> and \<^verbatim>\<open>npx @mcp-use/tunnel <port>\<close> carry that
  rendering as it is. On every integer, zero and the negative ones included, the handler
  settles with the text: port \<open>0\<close> gives \<^verbatim>\<open>PORT=0\<close> and port \<open>-1\<close> gives \<^verbatim>\<open>PORT=-1\<close>.
\<close>

theorem run_server_total_on_ports:
  "sublist (''PORT='' @ to_string port @ '' '' @ (if useYarn then ''yarn'' else ''npm'') @ '' start'')
     (run_server_with to_string port3000 (Some useYarn) (Some port))
   \<and> sublist (''mcp-use start --port '' @ to_string port @ '' --tunnel'')
     (run_server_with to_string port3000 (Some useYarn) (Some port))
   \<and> sublist (''npx @mcp-use/tunnel '' @ to_string port @ ''  # Terminal 2'')
     (run_server_with to_string port3000 (Some useYarn) (Some port))
   \<and> run_server (Some useYarn) (Some i)
       = Inr (Text (run_server_with number_to_string 3000 (Some useYarn) (Some i)))
   \<and> sublist ''PORT=0 npm start'' (run_server_text (Some False) (Some 0))
   \<and> sublist ''PORT=-1 npm start'' (run_server_text (Some False) (Some (- 1)))"
proof -
  have z: "sublist ''PORT=0 npm start'' (run_server_text (Some False) (Some 0))"
    using run_server_custom_port_line[of number_to_string 0 False 3000]
    unfolding run_server_text_def number_to_string_0 by simp
  have m: "sublist ''PORT=-1 npm start'' (run_server_text (Some False) (Some (- 1)))"
    using run_server_custom_port_line[of number_to_string "- 1" False 3000]
    unfolding run_server_text_def number_to_string_minus_1 by simp
  have h: "run_server (Some useYarn) (Some i)
       = Inr (Text (run_server_with number_to_string 3000 (Some useYarn) (Some i)))"
    unfolding run_server_def run_server_text_def by (rule refl)
  from z m h run_server_custom_port_line[of to_string port useYarn port3000]
    run_server_auto_tunnel_line[of to_string port port3000 useYarn]
    run_server_tunnel_line[of to_string port port3000 useYarn]
  show ?thesis by (simp only: simp_thms)
qed

section \<open>Properties of deploy-server\<close>

lemma deploy_header_join:
  assumes "ls \<noteq> []"
  shows "deploy_header @ join_lines ls = join_lines (''# Deploy Your MCP Server'' # '''' # ls)"
proof -
  obtain l ls' where "ls = l # ls'" using assms by (cases ls) auto
  then show ?thesis unfolding deploy_header_def by simp
qed

lemma deploy_server_text_cases:
  "deploy_server_text useYarn_arg (Some ''mcp-use-cloud'')
     = deploy_header @ mcp_use_cloud_instructions
         (if (case useYarn_arg of None \<Rightarrow> True | Some b \<Rightarrow> b) then ''yarn'' else ''npm'')"
  "deploy_server_text useYarn_arg (Some ''supabase'') = deploy_header @ supabase_instructions"
  "deploy_server_text useYarn_arg (Some ''other'') = deploy_header @ other_instructions"
  "deploy_server_text useYarn_arg None = deploy_server_text useYarn_arg (Some ''mcp-use-cloud'')"
  unfolding deploy_server_text_def by simp_all

lemma deploy_server_text_else:
  assumes "platform \<noteq> ''mcp-use-cloud''" "platform \<noteq> ''supabase''"
  shows "deploy_server_text useYarn_arg (Some platform) = deploy_header @ other_instructions"
  unfolding deploy_server_text_def using assms by simp

lemma sublist_deploy:
  assumes "nl \<notin> set n" "ls \<noteq> []"
  shows "sublist n (deploy_header @ join_lines ls)
    \<longleftrightarrow> (\<exists>l\<in>set (''# Deploy Your MCP Server'' # '''' # ls). sublist n l)"
proof -
  have "sublist n (join_lines (''# Deploy Your MCP Server'' # '''' # ls))
    \<longleftrightarrow> (\<exists>l\<in>set (''# Deploy Your MCP Server'' # '''' # ls). sublist n l)"
    using assms(1) by (rule sublist_join_lines) simp
  then show ?thesis by (simp only: deploy_header_join[OF assms(2)])
qed

lemma not_sublist_via:
  assumes "sublist m n" "\<not> sublist m t"
  shows "\<not> sublist n t"
proof
  assume "sublist n t"
  with assms(1) have "sublist m t" by (rule sublist_order.order_trans)
  with assms(2) show False ..
qed

lemma cloud_heading: "sublist ''## Deploy to mcp-use Cloud'' (mcp_use_cloud_instructions pm)"
proof -
  have "sublist ''## Deploy to mcp-use Cloud'' ''## Deploy to mcp-use Cloud (Recommended)''"
    by (simp add: sublist_code)
  moreover have "sublist ''## Deploy to mcp-use Cloud (Recommended)'' (mcp_use_cloud_instructions pm)"
    unfolding mcp_use_cloud_instructions_def by (rule sublist_line) simp
  ultimately show ?thesis by (rule sublist_order.order_trans)
qed

lemma supabase_heading: "sublist ''## Deploy to Supabase'' supabase_instructions"
  unfolding supabase_instructions_def by (rule sublist_line) simp

lemma other_heading: "sublist ''## Deploy to Custom Platform'' other_instructions"
  unfolding other_instructions_def by (rule sublist_line) simp

lemma cloud_text_headings:
  "\<not> sublist ''## Deploy to Supabase'' (deploy_header @ mcp_use_cloud_instructions (if b then ''yarn'' else ''npm''))"
  "\<not> sublist ''## Deploy to Custom Platform'' (deploy_header @ mcp_use_cloud_instructions (if b then ''yarn'' else ''npm''))"
  unfolding mcp_use_cloud_instructions_def
  by (subst sublist_deploy; simp add: nl_def sublist_code)+

lemma supabase_text_headings:
  "\<not> sublist ''## Deploy to mcp-use Cloud'' (deploy_header @ supabase_instructions)"
  "\<not> sublist ''## Deploy to Custom Platform'' (deploy_header @ supabase_instructions)"
  unfolding supabase_instructions_def
  by (subst sublist_deploy; simp add: nl_def sublist_code)+

lemma other_text_headings:
  "\<not> sublist ''## Deploy to mcp-use Cloud'' (deploy_header @ other_instructions)"
  "\<not> sublist ''## Deploy to Supabase'' (deploy_header @ other_instructions)"
  unfolding other_instructions_def
  by (subst sublist_deploy; simp add: nl_def sublist_code)+

text \<open>
  C4. On each of the three platforms of the enumeration the text of deploy-server is the
  header followed by the template of that platform, and neither of the two other
  templates occurs anywhere in it; the cloud template is excluded for every package
  manager.
\<close>

theorem deploy_server_one_branch:
  "deploy_server_text (Some useYarn) (Some ''mcp-use-cloud'')
      = deploy_header @ mcp_use_cloud_instructions (if useYarn then ''yarn'' else ''npm'')
   \<and> \<not> sublist supabase_instructions (deploy_server_text (Some useYarn) (Some ''mcp-use-cloud''))
   \<and> \<not> sublist other_instructions (deploy_server_text (Some useYarn) (Some ''mcp-use-cloud''))
   \<and> deploy_server_text (Some useYarn) (Some ''supabase'') = deploy_header @ supabase_instructions
   \<and> \<not> sublist (mcp_use_cloud_instructions pm) (deploy_server_text (Some useYarn) (Some ''supabase''))
   \<and> \<not> sublist other_instructions (deploy_server_text (Some useYarn) (Some ''supabase''))
   \<and> deploy_server_text (Some useYarn) (Some ''other'') = deploy_header @ other_instructions
   \<and> \<not> sublist (mcp_use_cloud_instructions pm) (deploy_server_text (Some useYarn) (Some ''other''))
   \<and> \<not> sublist supabase_instructions (deploy_server_text (Some useYarn) (Some ''other''))"
proof -
  have c: "deploy_server_text (Some useYarn) (Some ''mcp-use-cloud'')
      = deploy_header @ mcp_use_cloud_instructions (if useYarn then ''yarn'' else ''npm'')"
    by (simp add: deploy_server_text_cases)
  have s: "deploy_server_text (Some useYarn) (Some ''supabase'') = deploy_header @ supabase_instructions"
    by (rule deploy_server_text_cases)
  have o: "deploy_server_text (Some useYarn) (Some ''other'') = deploy_header @ other_instructions"
    by (rule deploy_server_text_cases)
  have cs: "\<not> sublist supabase_instructions (deploy_server_text (Some useYarn) (Some ''mcp-use-cloud''))"
    unfolding c using supabase_heading cloud_text_headings(1) by (rule not_sublist_via)
  have co: "\<not> sublist other_instructions (deploy_server_text (Some useYarn) (Some ''mcp-use-cloud''))"
    unfolding c using other_heading cloud_text_headings(2) by (rule not_sublist_via)
  have sc: "\<not> sublist (mcp_use_cloud_instructions pm) (deploy_server_text (Some useYarn) (Some ''supabase''))"
    unfolding s using cloud_heading supabase_text_headings(1) by (rule not_sublist_via)
  have so: "\<not> sublist other_instructions (deploy_server_text (Some useYarn) (Some ''supabase''))"
    unfolding s using other_heading supabase_text_headings(2) by (rule not_sublist_via)
  have oc: "\<not> sublist (mcp_use_cloud_instructions pm) (deploy_server_text (Some useYarn) (Some ''other''))"
    unfolding o using cloud_heading other_text_headings(1) by (rule not_sublist_via)
  have os: "\<not> sublist supabase_instructions (deploy_server_text (Some useYarn) (Some ''other''))"
    unfolding o using supabase_heading other_text_headings(2) by (rule not_sublist_via)
  from c cs co s sc so o oc os show ?thesis by (simp only: simp_thms)
qed

text \<open>
  C8. On the platform \<^verbatim>\<open>supabase\<close>, whatever \<open>useYarn\<close> is, the text of deploy-server is the
  header followed by the Supabase template: it contains the install, init and deploy
  commands of the Supabase CLI, and neither the command \<^verbatim>\<open>npx mcp-use login\<close> nor the
  login step of the cloud template occurs in it.
\<close>

theorem deploy_server_supabase:
  "deploy_server_text useYarn_arg (Some ''supabase'') = deploy_header @ supabase_instructions
   \<and> sublist ''npm install -g supabase'' (deploy_server_text useYarn_arg (Some ''supabase''))
   \<and> sublist ''supabase init'' (deploy_server_text useYarn_arg (Some ''supabase''))
   \<and> sublist ''supabase functions deploy mcp-server'' (deploy_server_text useYarn_arg (Some ''supabase''))
   \<and> \<not> sublist ''npx mcp-use login'' (deploy_server_text useYarn_arg (Some ''supabase''))
   \<and> \<not> sublist ''Login'' (deploy_server_text useYarn_arg (Some ''supabase''))"
proof -
  have s: "deploy_server_text useYarn_arg (Some ''supabase'') = deploy_header @ supabase_instructions"
    by (rule deploy_server_text_cases)
  have 1: "sublist ''npm install -g supabase'' (deploy_header @ supabase_instructions)"
    unfolding supabase_instructions_def by (subst sublist_deploy; simp add: nl_def sublist_code)
  have 2: "sublist ''supabase init'' (deploy_header @ supabase_instructions)"
    unfolding supabase_instructions_def by (subst sublist_deploy; simp add: nl_def sublist_code)
  have 3: "sublist ''supabase functions deploy mcp-server'' (deploy_header @ supabase_instructions)"
    unfolding supabase_instructions_def by (subst sublist_deploy; simp add: nl_def sublist_code)
  have 4: "\<not> sublist ''npx mcp-use login'' (deploy_header @ supabase_instructions)"
    unfolding supabase_instructions_def by (subst sublist_deploy; simp add: nl_def sublist_code)
  have 5: "\<not> sublist ''Login'' (deploy_header @ supabase_instructions)"
    unfolding supabase_instructions_def by (subst sublist_deploy; simp add: nl_def sublist_code)
  from s 1 2 3 4 5 show ?thesis by (simp only: simp_thms)
qed

text \<open>
  C10. For every \<open>useYarn\<close> and every platform, given or omitted, inside the enumeration or
  not, the text of deploy-server is the line \<^verbatim>\<open># Deploy Your MCP Server\<close>, two line feeds,
  and then one of the platform templates.
\<close>

theorem deploy_server_header:
  "\<exists>rest. deploy_server_text useYarn_arg platform_arg = ''# Deploy Your MCP Server'' @ [nl, nl] @ rest
     \<and> rest \<in> {mcp_use_cloud_instructions ''yarn'', mcp_use_cloud_instructions ''npm'',
                supabase_instructions, other_instructions}"
  unfolding deploy_server_text_def deploy_header_def Let_def
  by (simp split: option.split)

section \<open>The package manager in the two texts\<close>

lemma cloud_text_package_manager:
  "sublist ((if useYarn then ''yarn'' else ''npm'') @ '' run deploy'')
     (deploy_header @ mcp_use_cloud_instructions (if useYarn then ''yarn'' else ''npm''))"
proof -
  have "sublist ((if useYarn then ''yarn'' else ''npm'') @ '' run deploy'')
      (mcp_use_cloud_instructions (if useYarn then ''yarn'' else ''npm''))"
    unfolding mcp_use_cloud_instructions_def by (rule sublist_line) simp
  moreover have "sublist (mcp_use_cloud_instructions (if useYarn then ''yarn'' else ''npm''))
      (deploy_header @ mcp_use_cloud_instructions (if useYarn then ''yarn'' else ''npm''))"
    by (rule sublist_append_leftI)
  ultimately show ?thesis by (rule sublist_order.order_trans)
qed

lemma cloud_text_tokens:
  "sublist ''yarn'' (deploy_header @ mcp_use_cloud_instructions (if useYarn then ''yarn'' else ''npm'')) \<longleftrightarrow> useYarn"
  "sublist ''npm'' (deploy_header @ mcp_use_cloud_instructions (if useYarn then ''yarn'' else ''npm'')) \<longleftrightarrow> \<not> useYarn"
  unfolding mcp_use_cloud_instructions_def
  by (subst sublist_deploy; simp add: nl_def sublist_code)+

lemma supabase_text_tokens:
  "\<not> sublist ''yarn'' (deploy_header @ supabase_instructions)"
  "sublist ''npm install -g supabase'' (deploy_header @ supabase_instructions)"
  unfolding supabase_instructions_def
  by (subst sublist_deploy; simp add: nl_def sublist_code)+

lemma other_text_tokens:
  "\<not> sublist ''yarn'' (deploy_header @ other_instructions)"
  "\<not> sublist ''npm'' (deploy_header @ other_instructions)"
  unfolding other_instructions_def
  by (subst sublist_deploy; simp add: nl_def sublist_code)+

text \<open>
  C2, as stated, fails: with \<open>useYarn = true\<close> on the platform \<^verbatim>\<open>supabase\<close> the text of
  deploy-server does not contain \<^verbatim>\<open>yarn\<close>.
\<close>

theorem deploy_server_supabase_without_yarn:
  "\<not> sublist ''yarn'' (deploy_server_text (Some True) (Some ''supabase''))"
  using supabase_text_tokens(1) by (simp only: deploy_server_text_cases simp_thms)

text \<open>
  C2, amended. The text of run-server, on every input, and the text of deploy-server on
  the platform \<^verbatim>\<open>mcp-use-cloud\<close> embed the package manager: \<^verbatim>\<open><pm> run dev\<close> and
  \<^verbatim>\<open><pm> run deploy\<close> occur, and in the cloud text \<^verbatim>\<open>yarn\<close> occurs exactly when \<open>useYarn\<close> is
  true and \<^verbatim>\<open>npm\<close> exactly when it is false. On the platforms \<^verbatim>\<open>supabase\<close> and \<^verbatim>\<open>other\<close> the
  text is the same for both values of \<open>useYarn\<close>: \<^verbatim>\<open>yarn\<close> occurs in neither, \<^verbatim>\<open>npm\<close> does not
  occur in the text of \<^verbatim>\<open>other\<close>, and the Supabase text has its fixed line
  \<^verbatim>\<open>npm install -g supabase\<close>.
\<close>

theorem package_manager_embedded:
  "sublist ((if useYarn then ''yarn'' else ''npm'') @ '' run dev'')
     (run_server_text (Some useYarn) (Some port))
   \<and> sublist ((if useYarn then ''yarn'' else ''npm'') @ '' run deploy'')
     (deploy_server_text (Some useYarn) (Some ''mcp-use-cloud''))
   \<and> (sublist ''yarn'' (deploy_server_text (Some useYarn) (Some ''mcp-use-cloud'')) \<longleftrightarrow> useYarn)
   \<and> (sublist ''npm'' (deploy_server_text (Some useYarn) (Some ''mcp-use-cloud'')) \<longleftrightarrow> \<not> useYarn)
   \<and> deploy_server_text (Some useYarn) (Some ''supabase'')
       = deploy_server_text (Some (\<not> useYarn)) (Some ''supabase'')
   \<and> deploy_server_text (Some useYarn) (Some ''other'')
       = deploy_server_text (Some (\<not> useYarn)) (Some ''other'')
   \<and> \<not> sublist ''yarn'' (deploy_server_text (Some useYarn) (Some ''supabase''))
   \<and> sublist ''npm install -g supabase'' (deploy_server_text (Some useYarn) (Some ''supabase''))
   \<and> \<not> sublist ''yarn'' (deploy_server_text (Some useYarn) (Some ''other''))
   \<and> \<not> sublist ''npm'' (deploy_server_text (Some useYarn) (Some ''other''))"
proof -
  have r: "sublist ((if useYarn then ''yarn'' else ''npm'') @ '' run dev'')
     (run_server_text (Some useYarn) (Some port))"
    unfolding run_server_text_def by (rule run_server_has_run_dev)
  have c: "deploy_server_text (Some useYarn) (Some ''mcp-use-cloud'')
      = deploy_header @ mcp_use_cloud_instructions (if useYarn then ''yarn'' else ''npm'')"
    by (simp add: deploy_server_text_cases)
  from r cloud_text_package_manager[of useYarn] cloud_text_tokens[of useYarn]
    supabase_text_tokens other_text_tokens
  show ?thesis unfolding c deploy_server_text_cases by (simp only: simp_thms option.case)
qed

section \<open>Failure and defaults\<close>

text \<open>
  C3, as stated, fails: on the platform \<^verbatim>\<open>heroku\<close>, which is outside the enumeration, the
  handler of deploy-server does not reject with a configuration error; it settles with
  the text for a custom platform.
\<close>

theorem deploy_server_heroku_succeeds:
  "deploy_server (Some True) (Some ''heroku'') \<noteq> Inl ConfigurationError
   \<and> deploy_server (Some True) (Some ''heroku'') = Inr (Text (deploy_header @ other_instructions))"
  unfolding deploy_server_def by (simp add: deploy_server_text_else)

text \<open>
  C3, amended. The handler of deploy-server never fails: on every input it settles with a
  text, and on a platform outside the enumeration that text is the one of the platform
  \<^verbatim>\<open>other\<close>, the header followed by the template for a custom platform.
\<close>

theorem deploy_server_never_fails:
  assumes "platform \<notin> set platforms"
  shows "deploy_server useYarn_arg (Some platform) = Inr (Text (deploy_header @ other_instructions))
    \<and> deploy_server useYarn_arg (Some platform) = deploy_server useYarn_arg (Some ''other'')
    \<and> (\<exists>s. deploy_server useYarn_arg' platform_arg = Inr (Text s))"
proof -
  from assms have ne: "platform \<noteq> ''mcp-use-cloud''" "platform \<noteq> ''supabase''"
    unfolding platforms_def by auto
  then have "deploy_server_text useYarn_arg (Some platform) = deploy_header @ other_instructions"
    by (rule deploy_server_text_else)
  then show ?thesis unfolding deploy_server_def by (simp add: deploy_server_text_cases)
qed

theorem deploy_server_never_fails_witness:
  "''heroku'' \<notin> set platforms
   \<and> deploy_server (Some False) (Some ''heroku'') = Inr (Text (deploy_header @ other_instructions))
   \<and> deploy_server (Some False) (Some ''heroku'') = deploy_server (Some False) (Some ''other'')
   \<and> (\<exists>s. deploy_server None (Some ''supabase'') = Inr (Text s))"
proof -
  have h: "''heroku'' \<notin> set platforms" unfolding platforms_def by simp
  show ?thesis by (rule conjI[OF h deploy_server_never_fails[OF h]])
qed

text \<open>
  C5. An omitted \<open>useYarn\<close> is \<open>true\<close>, an omitted port is \<open>3000\<close> and an omitted platform is
  \<^verbatim>\<open>mcp-use-cloud\<close>: each handler gives the same result with a parameter omitted as with
  its default given, and so with both omitted as with both defaults given.
\<close>

theorem handlers_defaults:
  "run_server None None = run_server (Some True) (Some 3000)
   \<and> run_server None port_arg = run_server (Some True) port_arg
   \<and> run_server useYarn_arg None = run_server useYarn_arg (Some 3000)
   \<and> deploy_server None None = deploy_server (Some True) (Some ''mcp-use-cloud'')
   \<and> deploy_server None platform_arg = deploy_server (Some True) platform_arg
   \<and> deploy_server useYarn_arg None = deploy_server useYarn_arg (Some ''mcp-use-cloud'')"
  by (simp only: run_server_def run_server_text_def run_server_with_def
      deploy_server_def deploy_server_text_def option.case simp_thms)

section \<open>The numeral of a port\<close>

lemma digit_cases:
  assumes "d < (10::nat)"
  shows "d = 0 \<or> d = 1 \<or> d = 2 \<or> d = 3 \<or> d = 4 \<or> d = 5 \<or> d = 6 \<or> d = 7 \<or> d = 8 \<or> d = 9"
  using assms by arith

lemma digit_value_digit_char:
  assumes "d < 10"
  shows "digit_value (digit_char d) = d"
  using digit_cases[OF assms] unfolding digit_value_def digit_char_def
  by (elim disjE) simp_all

lemma digit_char_zero:
  assumes "d < 10" "digit_char d = CHR ''0''"
  shows "d = 0"
proof -
  have "digit_value (digit_char d) = digit_value (CHR ''0'')" by (simp only: assms(2))
  with assms(1) show ?thesis by (simp add: digit_value_digit_char) (simp add: digit_value_def)
qed

lemma decimal_value_snoc:
  "decimal_value (ds @ [c]) = 10 * decimal_value ds + digit_value c"
  unfolding decimal_value_def by simp

lemma decimal_value_single: "decimal_value [c] = digit_value c"
  unfolding decimal_value_def by simp

lemma decimal_value_digits_of: "decimal_value (digits_of n) = n"
proof (induction n rule: digits_of.induct)
  case (1 n)
  show ?case
  proof (cases "n < 10")
    case True
    then show ?thesis
      by (subst digits_of.simps) (simp add: decimal_value_single digit_value_digit_char)
  next
    case False
    with 1 have ih: "decimal_value (digits_of (n div 10)) = n div 10" by simp
    have "digit_value (digit_char (n mod 10)) = n mod 10"
      by (rule digit_value_digit_char) simp
    with ih False show ?thesis
      by (subst digits_of.simps) (simp add: decimal_value_snoc)
  qed
qed

lemma digits_of_no_leading_zero:
  assumes "0 < n"
  shows "hd (digits_of n) \<noteq> CHR ''0''"
  using assms
proof (induction n rule: digits_of.induct)
  case (1 n)
  show ?case
  proof (cases "n < 10")
    case True
    have "digit_char n \<noteq> CHR ''0''"
    proof
      assume "digit_char n = CHR ''0''"
      with True have "n = 0" by (rule digit_char_zero)
      with 1(2) show False by simp
    qed
    with True show ?thesis by (subst digits_of.simps) simp
  next
    case False
    then have "0 < n div 10" by simp
    with 1(1) False have "hd (digits_of (n div 10)) \<noteq> CHR ''0''" by simp
    with False show ?thesis
      by (subst digits_of.simps) (simp add: digits_of_nonempty)
  qed
qed

lemma decimal_numeral_number_to_string:
  assumes "0 < i"
  shows "decimal_numeral (number_to_string i) (nat i)"
proof -
  from assms have n: "number_to_string i = digits_of (nat i)"
    by (simp add: number_to_string_def)
  from assms have "0 < nat i" by simp
  then have "hd (digits_of (nat i)) \<noteq> CHR ''0''" by (rule digits_of_no_leading_zero)
  then show ?thesis
    unfolding decimal_numeral_def n
    using digits_of_nonempty[of "nat i"] digits_of_chars[of "nat i"] decimal_value_digits_of[of "nat i"]
    by (simp only: simp_thms)
qed

text \<open>
  C1. For every \<open>useYarn\<close> and every valid port, a positive integer (taken up to \<open>2\<^sup>5\<^sup>3\<close>,
  where the integer is a number of the language and prints as its numeral), the text of
  run-server holds the custom-port section with the command line
  \<^verbatim>\<open>PORT=<port> <pm> start\<close>, where \<open><port>\<close> is the decimal numeral of the port, digits
  without a leading zero that denote it, and \<open><pm>\<close> is the package manager; the text
  contains \<^verbatim>\<open>yarn\<close> exactly when \<open>useYarn\<close> is true and \<^verbatim>\<open>npm\<close> exactly when it is false.
\<close>

theorem run_server_port_and_package_manager:
  assumes "0 < port" "port \<le> 2 ^ 53"
  shows "(\<exists>ds. decimal_numeral ds (nat port)
      \<and> sublist (join_lines [''**With custom port:**'', ''```bash'',
            ''PORT='' @ ds @ '' '' @ (if useYarn then ''yarn'' else ''npm'') @ '' start'',
            ''```''])
          (run_server_text (Some useYarn) (Some port))
      \<and> sublist (''PORT='' @ ds @ '' '' @ (if useYarn then ''yarn'' else ''npm'') @ '' start'')
          (run_server_text (Some useYarn) (Some port)))
   \<and> (sublist ''yarn'' (run_server_text (Some useYarn) (Some port)) \<longleftrightarrow> useYarn)
   \<and> (sublist ''npm'' (run_server_text (Some useYarn) (Some port)) \<longleftrightarrow> \<not> useYarn)"
proof -
  let ?t = "run_server_text (Some useYarn) (Some port)"
  let ?pm = "if useYarn then ''yarn'' else ''npm''"
  have dev: "sublist (?pm @ '' run dev'') ?t"
    unfolding run_server_text_def by (rule run_server_has_run_dev)
  have yarn: "sublist ''yarn'' ?t \<longleftrightarrow> useYarn"
  proof (cases useYarn)
    case True
    have "sublist ''yarn'' (''yarn'' @ '' run dev'')" by (rule sublist_append_rightI)
    with dev True have "sublist ''yarn'' ?t" by (auto intro: sublist_order.order_trans)
    with True show ?thesis by simp
  next
    case False then show ?thesis using run_server_no_yarn[of port] by simp
  qed
  have npm: "sublist ''npm'' ?t \<longleftrightarrow> \<not> useYarn"
  proof (cases useYarn)
    case True then show ?thesis using run_server_no_npm[of port] by simp
  next
    case False
    have "sublist ''npm'' (''npm'' @ '' run dev'')" by (rule sublist_append_rightI)
    with dev False have "sublist ''npm'' ?t" by (auto intro: sublist_order.order_trans)
    with False show ?thesis by simp
  qed
  have num: "decimal_numeral (number_to_string port) (nat port)"
    using assms(1) by (rule decimal_numeral_number_to_string)
  have block: "sublist (join_lines [''**With custom port:**'', ''```bash'',
            ''PORT='' @ number_to_string port @ '' '' @ ?pm @ '' start'', ''```'']) ?t"
    unfolding run_server_text_def by (rule run_server_custom_port_block)
  have line: "sublist (''PORT='' @ number_to_string port @ '' '' @ ?pm @ '' start'') ?t"
    unfolding run_server_text_def by (rule run_server_custom_port_line)
  from num block line have "\<exists>ds. decimal_numeral ds (nat port)
      \<and> sublist (join_lines [''**With custom port:**'', ''```bash'',
            ''PORT='' @ ds @ '' '' @ ?pm @ '' start'', ''```'']) ?t
      \<and> sublist (''PORT='' @ ds @ '' '' @ ?pm @ '' start'') ?t"
    by (intro exI[of _ "number_to_string port"] conjI)
  with yarn npm show ?thesis by (intro conjI)
qed

theorem run_server_port_and_package_manager_witness:
  "(0::int) < 8080 \<and> (8080::int) \<le> 2 ^ 53
   \<and> (\<exists>ds. decimal_numeral ds (nat 8080)
      \<and> sublist (join_lines [''**With custom port:**'', ''```bash'',
            ''PORT='' @ ds @ '' '' @ ''npm'' @ '' start'', ''```''])
          (run_server_text (Some False) (Some 8080))
      \<and> sublist (''PORT='' @ ds @ '' '' @ ''npm'' @ '' start'')
          (run_server_text (Some False) (Some 8080)))
   \<and> \<not> sublist ''yarn'' (run_server_text (Some False) (Some 8080))
   \<and> sublist ''npm'' (run_server_text (Some False) (Some 8080))"
proof -
  have h1: "(0::int) < 8080" by simp
  have h2: "(8080::int) \<le> 2 ^ 53" by simp
  from run_server_port_and_package_manager[OF h1 h2, of False] h1 h2
  show ?thesis by (simp only: if_False simp_thms)
qed

section \<open>Independence of the runtime\<close>




end
